theory Spec2Isabelle
  imports Complex_Main
begin

text \<open>
  The script of ShoreSquad, a page for beach cleanups: its state (\<open>appState\<close>), the
  preferences read from local storage, the weather requests with their fallback, the
  forecast cards, the map markers, the location handlers and the email check. The
  repository holds two copies of the script; they agree on every function modelled here
  but the weather ones, which are taken from the copy that queries the NEA service
  (\<open>loadWeatherData\<close>, \<open>fetchNEAWeather\<close>, \<open>fetchNEAForecast\<close>, \<open>loadMockWeatherData\<close>,
  \<open>displayForecast\<close>, \<open>getWeatherIcon\<close>, \<open>getDateString\<close>, \<open>formatDate\<close>).
\<close>

section \<open>JavaScript values\<close>

text \<open>
  A JavaScript string is a sequence of UTF-16 code units; \<open>js\<close> embeds an ASCII literal.
  Characters outside ASCII (the emoji of the notification texts) are written as their
  code units.
\<close>

type_synonym jsstring = "nat list"

definition js :: "string \<Rightarrow> jsstring" where
  "js s = map of_char s"

text \<open>
  Numbers: the finite values are kept exact (as rationals); the rounding of IEEE doubles is
  not part of this development.
\<close>

datatype jsnum = Finite rat | NaN | PosInf | NegInf

datatype jsval =
    JUndefined
  | JNull
  | JBool bool
  | JNum jsnum
  | JStr jsstring
  | JArr "jsval list"
  | JObj "(jsstring \<times> jsval) list"

datatype exn = TypeError | SyntaxError | Error jsstring

text \<open>
  What the functions take from the engine and the host, and this development does not
  fix: the clock and the time zone (\<open>LocalTZA\<close> of ECMAScript, seen from a UTC time
  value and from a local one), the date parser outside the ECMAScript date-time format, the
  text of a number that is not an integer below \<open>10\<^sup>2\<^sup>1\<close>, the conversion
  \<open>ToNumber\<close> of values that are not primitive,
  \<open>String.prototype.toLowerCase\<close>, the stream of \<open>Math.random()\<close> draws, the
  rounding of a decimal to a Number, and the floating-point mean of the temperature
  readings. The clock is read as one instant during a synchronous call.
\<close>

record platform =
  now :: int
  tza_utc :: "int \<Rightarrow> int"
  tza_local :: "int \<Rightarrow> int"
  date_parse_other :: "jsstring \<Rightarrow> int option"
  number_text :: "jsnum \<Rightarrow> jsstring"
  to_number :: "jsval \<Rightarrow> jsnum"
  toLowerCase :: "jsstring \<Rightarrow> jsstring"
  random :: "nat \<Rightarrow> rat"
  number_of :: "rat \<Rightarrow> jsnum"
  mean_1dp :: "jsval list \<Rightarrow> jsnum"

subsection \<open>Truthiness, property access, strings\<close>

fun truthy :: "jsval \<Rightarrow> bool" where
  "truthy JUndefined = False"
| "truthy JNull = False"
| "truthy (JBool b) = b"
| "truthy (JNum (Finite r)) = (r \<noteq> 0)"
| "truthy (JNum NaN) = False"
| "truthy (JNum PosInf) = True"
| "truthy (JNum NegInf) = True"
| "truthy (JStr s) = (s \<noteq> [])"
| "truthy (JArr xs) = True"
| "truthy (JObj kvs) = True"

text \<open>
  \<open>v.k\<close> for the property names the code reads (\<open>metadata\<close>, \<open>stations\<close>,
  \<open>length\<close>, \<open>location\<close>, \<open>latitude\<close>, \<open>longitude\<close>, \<open>items\<close>,
  \<open>readings\<close>, \<open>value\<close>, \<open>forecasts\<close>, \<open>date\<close>, \<open>high\<close>, \<open>low\<close>,
  \<open>forecast\<close>, \<open>units\<close>): none is an array index and, \<open>length\<close> apart, none is
  inherited from a prototype. Reading a property of \<open>undefined\<close> or \<open>null\<close> throws
  a \<open>TypeError\<close>: every function below tests \<open>nullish\<close> where the source reads a
  property of a value that can be one of the two, and \<open>get_prop\<close> is used on the others.
\<close>

fun nullish :: "jsval \<Rightarrow> bool" where
  "nullish JUndefined = True"
| "nullish JNull = True"
| "nullish v = False"

fun get_prop :: "jsval \<Rightarrow> jsstring \<Rightarrow> jsval" where
  "get_prop (JStr s) k = (if k = js ''length'' then JNum (Finite (of_nat (length s))) else JUndefined)"
| "get_prop (JArr xs) k = (if k = js ''length'' then JNum (Finite (of_nat (length xs))) else JUndefined)"
| "get_prop (JObj kvs) k = (case map_of kvs k of Some v \<Rightarrow> v | None \<Rightarrow> JUndefined)"
| "get_prop v k = JUndefined"

text \<open>\<open>v[0]\<close>, for a value that is neither \<open>undefined\<close> nor \<open>null\<close>.\<close>

fun index0 :: "jsval \<Rightarrow> jsval" where
  "index0 (JStr (c # s)) = JStr [c]"
| "index0 (JArr (x # xs)) = x"
| "index0 (JObj kvs) = (case map_of kvs (js ''0'') of Some v \<Rightarrow> v | None \<Rightarrow> JUndefined)"
| "index0 v = JUndefined"

text \<open>\<open>v > 0\<close>.\<close>

fun num_gt_zero :: "jsnum \<Rightarrow> bool" where
  "num_gt_zero (Finite r) = (0 < r)"
| "num_gt_zero NaN = False"
| "num_gt_zero PosInf = True"
| "num_gt_zero NegInf = False"

fun gt_zero :: "platform \<Rightarrow> jsval \<Rightarrow> bool" where
  "gt_zero p JUndefined = False"
| "gt_zero p JNull = False"
| "gt_zero p (JBool b) = b"
| "gt_zero p (JNum n) = num_gt_zero n"
| "gt_zero p v = num_gt_zero (to_number p v)"

text \<open>\<open>Math.round\<close>: to the nearest integer, ties towards \<open>+\<infinity>\<close>.\<close>

fun Math_round :: "jsnum \<Rightarrow> jsnum" where
  "Math_round (Finite r) = Finite (of_int \<lfloor>r + 1 / 2\<rfloor>)"
| "Math_round n = n"

text \<open>The decimal digits of a natural number, and a field padded with zeros to a width.\<close>

fun digits :: "nat \<Rightarrow> jsstring" where
  "digits n = (if n < 10 then [48 + n] else digits (n div 10) @ [48 + n mod 10])"

definition pad :: "nat \<Rightarrow> nat \<Rightarrow> jsstring" where
  "pad w n = replicate (w - length (digits n)) 48 @ digits n"

fun starts_with :: "jsstring \<Rightarrow> jsstring \<Rightarrow> bool" where
  "starts_with s [] = True"
| "starts_with [] (c # sub) = False"
| "starts_with (d # s) (c # sub) = (d = c \<and> starts_with s sub)"

text \<open>\<open>s.includes(sub)\<close>.\<close>

fun includes_str :: "jsstring \<Rightarrow> jsstring \<Rightarrow> bool" where
  "includes_str [] sub = (sub = [])"
| "includes_str (d # s) sub = (starts_with (d # s) sub \<or> includes_str s sub)"

text \<open>
  \<open>ToString\<close>, as a template literal and the operator \<open>+\<close> with a string apply it.
  An integer below \<open>10\<^sup>2\<^sup>1\<close> is written with its digits. An array is the texts of its
  elements joined by commas, \<open>undefined\<close> and \<open>null\<close> counting for the empty text. An
  object is \<^verbatim>\<open>[object Object]\<close>, unless it has a property \<open>toString\<close> of its own: a
  parsed value is never a function, so the conversion finds no method to call and throws a
  \<open>TypeError\<close>.
\<close>

definition Number_toString :: "platform \<Rightarrow> jsnum \<Rightarrow> jsstring" where
  "Number_toString p n =
     (case n of
        NaN \<Rightarrow> js ''NaN''
      | PosInf \<Rightarrow> js ''Infinity''
      | NegInf \<Rightarrow> js ''-Infinity''
      | Finite r \<Rightarrow>
          if r = of_int \<lfloor>r\<rfloor> \<and> \<bar>r\<bar> < 10 ^ 21 then
            (if r < 0 then 0x2D # digits (nat (- \<lfloor>r\<rfloor>)) else digits (nat \<lfloor>r\<rfloor>))
          else number_text p n)"

fun ToString :: "platform \<Rightarrow> jsval \<Rightarrow> exn + jsstring"
  and Array_join :: "platform \<Rightarrow> jsval list \<Rightarrow> exn + jsstring" where
  "ToString p JUndefined = Inr (js ''undefined'')"
| "ToString p JNull = Inr (js ''null'')"
| "ToString p (JBool b) = Inr (if b then js ''true'' else js ''false'')"
| "ToString p (JNum n) = Inr (Number_toString p n)"
| "ToString p (JStr s) = Inr s"
| "ToString p (JArr xs) = Array_join p xs"
| "ToString p (JObj kvs) =
     (if map_of kvs (js ''toString'') = None then Inr (js ''[object Object]'') else Inl TypeError)"
| "Array_join p [] = Inr []"
| "Array_join p (x # xs) =
     (case (if nullish x then Inr [] else ToString p x) of
        Inl e \<Rightarrow> Inl e
      | Inr s \<Rightarrow>
          if xs = [] then Inr s
          else (case Array_join p xs of Inl e \<Rightarrow> Inl e | Inr t \<Rightarrow> Inr (s @ 0x2C # t)))"

section \<open>The email pattern\<close>

text \<open>
  The pattern of \<open>isValidEmail\<close> is \<^verbatim>\<open>/^[^\s@]+@[^\s@]+\.[^\s@]+$/\<close>: a sequence of
  atoms, each matched once or one or more times, between the anchors of the start and of
  the end of the input (the pattern has no flag). The class \<^verbatim>\<open>\s\<close> is the white space and
  the line terminators of ECMAScript.
\<close>

definition is_space :: "nat \<Rightarrow> bool" where
  "is_space c =
     (c = 0x09 \<or> c = 0x0A \<or> c = 0x0B \<or> c = 0x0C \<or> c = 0x0D \<or> c = 0x20 \<or> c = 0xA0 \<or>
      c = 0x1680 \<or> (0x2000 \<le> c \<and> c \<le> 0x200A) \<or> c = 0x2028 \<or> c = 0x2029 \<or>
      c = 0x202F \<or> c = 0x205F \<or> c = 0x3000 \<or> c = 0xFEFF)"

datatype atom = Lit nat | NotSpaceOrAt

datatype item = Once atom | Plus atom

fun atom_matches :: "atom \<Rightarrow> nat \<Rightarrow> bool" where
  "atom_matches (Lit a) c = (c = a)"
| "atom_matches NotSpaceOrAt c = (\<not> is_space c \<and> c \<noteq> 0x40)"

text \<open>
  \<open>matches_to_end items s\<close>: some way of matching the items consumes exactly \<open>s\<close>. The
  matcher of the engine backtracks over every split, so \<open>test\<close> answers whether one exists.
\<close>

fun matches_to_end :: "item list \<Rightarrow> jsstring \<Rightarrow> bool" where
  "matches_to_end [] s = (s = [])"
| "matches_to_end (i # items) [] = False"
| "matches_to_end (Once a # items) (c # s) = (atom_matches a c \<and> matches_to_end items s)"
| "matches_to_end (Plus a # items) (c # s) =
     (atom_matches a c \<and> (matches_to_end (Plus a # items) s \<or> matches_to_end items s))"

definition emailRegex :: "item list" where
  "emailRegex = [Plus NotSpaceOrAt, Once (Lit 0x40), Plus NotSpaceOrAt, Once (Lit 0x2E), Plus NotSpaceOrAt]"

definition isValidEmail :: "jsstring \<Rightarrow> bool" where
  "isValidEmail email = matches_to_end emailRegex email"

section \<open>Dates\<close>

text \<open>
  Time values are milliseconds since the epoch, and the day and year arithmetic is the one
  of ECMAScript (\<open>Day\<close>, \<open>DayFromYear\<close>, \<open>MonthFromTime\<close>, \<open>DateFromTime\<close>,
  \<open>WeekDay\<close>, \<open>MakeDay\<close>, \<open>MakeDate\<close>). An invalid date is \<open>None\<close>. The range check of
  \<open>TimeClip\<close> is left out.
\<close>

definition msPerDay :: int where
  "msPerDay = 86400000"

definition Day :: "int \<Rightarrow> int" where
  "Day t = t div msPerDay"

definition TimeWithinDay :: "int \<Rightarrow> int" where
  "TimeWithinDay t = t mod msPerDay"

definition DaysInYear :: "int \<Rightarrow> int" where
  "DaysInYear y =
     (if y mod 4 \<noteq> 0 then 365 else if y mod 100 \<noteq> 0 then 366
      else if y mod 400 \<noteq> 0 then 365 else 366)"

definition DayFromYear :: "int \<Rightarrow> int" where
  "DayFromYear y = 365 * (y - 1970) + (y - 1969) div 4 - (y - 1901) div 100 + (y - 1601) div 400"

text \<open>
  The year of a day number: the largest \<open>y\<close> with \<open>DayFromYear y \<le> d\<close>, found next to
  the estimate that takes a year as 365.2425 days.
\<close>

definition YearFromDay :: "int \<Rightarrow> int" where
  "YearFromDay d =
     (let y0 = 1970 + (d * 400) div 146097
      in if d < DayFromYear y0 then y0 - 1
         else if DayFromYear (y0 + 1) \<le> d then y0 + 1
         else y0)"

definition InLeapYear :: "int \<Rightarrow> int" where
  "InLeapYear d = (if DaysInYear (YearFromDay d) = 366 then 1 else 0)"

definition DayWithinYear :: "int \<Rightarrow> int" where
  "DayWithinYear d = d - DayFromYear (YearFromDay d)"

text \<open>The day of the year on which month \<open>m\<close> (0 to 11) starts.\<close>

definition month_start :: "int \<Rightarrow> int \<Rightarrow> int" where
  "month_start m leap =
     (if m = 0 then 0 else if m = 1 then 31 else if m = 2 then 59 + leap
      else if m = 3 then 90 + leap else if m = 4 then 120 + leap
      else if m = 5 then 151 + leap else if m = 6 then 181 + leap
      else if m = 7 then 212 + leap else if m = 8 then 243 + leap
      else if m = 9 then 273 + leap else if m = 10 then 304 + leap
      else 334 + leap)"

definition MonthFromDay :: "int \<Rightarrow> int" where
  "MonthFromDay d =
     (let w = DayWithinYear d; leap = InLeapYear d
      in if w < 31 then 0 else if w < 59 + leap then 1 else if w < 90 + leap then 2
         else if w < 120 + leap then 3 else if w < 151 + leap then 4
         else if w < 181 + leap then 5 else if w < 212 + leap then 6
         else if w < 243 + leap then 7 else if w < 273 + leap then 8
         else if w < 304 + leap then 9 else if w < 334 + leap then 10
         else 11)"

definition DateFromDay :: "int \<Rightarrow> int" where
  "DateFromDay d = DayWithinYear d - month_start (MonthFromDay d) (InLeapYear d) + 1"

definition WeekDay :: "int \<Rightarrow> int" where
  "WeekDay t = (Day t + 4) mod 7"

text \<open>\<open>MakeDay\<close> for a month from 0 to 11, as \<open>MonthFromTime\<close> gives it.\<close>

definition MakeDay :: "int \<Rightarrow> int \<Rightarrow> int \<Rightarrow> int" where
  "MakeDay year month date =
     DayFromYear year + month_start month (if DaysInYear year = 366 then 1 else 0) + date - 1"

definition MakeDate :: "int \<Rightarrow> int \<Rightarrow> int" where
  "MakeDate day time = day * msPerDay + time"

definition LocalTime :: "platform \<Rightarrow> int \<Rightarrow> int" where
  "LocalTime p t = t + tza_utc p t"

definition UTC :: "platform \<Rightarrow> int \<Rightarrow> int" where
  "UTC p t = t - tza_local p t"

text \<open>
  \<open>new Date(str)\<close> for a string: a string of the shape \<^verbatim>\<open>YYYY-MM-DDT00:00:00\<close> that
  names a day of the calendar is the midnight of that day in local time; what every other
  string gives is left to the platform.
\<close>

definition is_digit :: "nat \<Rightarrow> bool" where
  "is_digit c = (48 \<le> c \<and> c \<le> 57)"

fun digits_value :: "jsstring \<Rightarrow> int \<Rightarrow> int" where
  "digits_value [] acc = acc"
| "digits_value (c # cs) acc = digits_value cs (10 * acc + (int c - 48))"

definition DaysInMonth :: "int \<Rightarrow> int \<Rightarrow> int" where
  "DaysInMonth year month =
     (if month = 1 then (if DaysInYear year = 366 then 29 else 28)
      else if month = 3 \<or> month = 5 \<or> month = 8 \<or> month = 10 then 30
      else 31)"

definition Date_parse :: "platform \<Rightarrow> jsstring \<Rightarrow> int option" where
  "Date_parse p str =
     (let y = take 4 str; m = take 2 (drop 5 str); d = take 2 (drop 8 str);
          year = digits_value y 0; month = digits_value m 0 - 1; date = digits_value d 0
      in if length str = 19 \<and> list_all is_digit (y @ m @ d) \<and>
            str ! 4 = 0x2D \<and> str ! 7 = 0x2D \<and> drop 10 str = js ''T00:00:00'' \<and>
            0 \<le> month \<and> month \<le> 11 \<and> 1 \<le> date \<and> date \<le> DaysInMonth year month
         then Some (UTC p (MakeDate (MakeDay year month date) 0))
         else date_parse_other p str)"

definition getDay :: "platform \<Rightarrow> int \<Rightarrow> int" where
  "getDay p t = WeekDay (LocalTime p t)"

definition getDate :: "platform \<Rightarrow> int \<Rightarrow> int" where
  "getDate p t = DateFromDay (Day (LocalTime p t))"

definition getMonth :: "platform \<Rightarrow> int \<Rightarrow> int" where
  "getMonth p t = MonthFromDay (Day (LocalTime p t))"

text \<open>
  \<open>date.setDate(dt)\<close>: the day of the month is replaced in local time, the time within
  the day is kept.
\<close>

definition setDate :: "platform \<Rightarrow> int \<Rightarrow> int \<Rightarrow> int" where
  "setDate p t dt =
     (let l = LocalTime p t
      in UTC p (MakeDate (MakeDay (YearFromDay (Day l)) (MonthFromDay (Day l)) dt) (TimeWithinDay l)))"

text \<open>
  \<open>date.toISOString().split('T')[0]\<close>: the year, month and day of the time value in UTC;
  a year outside 0 to 9999 is written with a sign and six digits.
\<close>

definition iso_date :: "int \<Rightarrow> jsstring" where
  "iso_date d =
     (let y = YearFromDay d
      in (if 0 \<le> y \<and> y \<le> 9999 then pad 4 (nat y)
          else if y < 0 then 0x2D # pad 6 (nat (- y))
          else 0x2B # pad 6 (nat y))
         @ [0x2D] @ pad 2 (nat (MonthFromDay d + 1)) @ [0x2D] @ pad 2 (nat (DateFromDay d)))"

definition getDateString :: "platform \<Rightarrow> int \<Rightarrow> jsstring" where
  "getDateString p daysFromNow =
     (let date = now p;
          date = setDate p date (getDate p date + daysFromNow)
      in iso_date (Day date))"

definition days :: "jsstring list" where
  "days = [js ''Sun'', js ''Mon'', js ''Tue'', js ''Wed'', js ''Thu'', js ''Fri'', js ''Sat'']"

definition months :: "jsstring list" where
  "months = [js ''Jan'', js ''Feb'', js ''Mar'', js ''Apr'', js ''May'', js ''Jun'',
             js ''Jul'', js ''Aug'', js ''Sep'', js ''Oct'', js ''Nov'', js ''Dec'']"

text \<open>
  \<open>formatDate\<close>. The argument is a string of the mock forecast or any value of a fetched
  one. \<open>dateStr + 'T00:00:00'\<close> converts the value to a string; when that throws, the
  \<^verbatim>\<open>catch\<close> block returns the value as it came. An invalid date has \<open>NaN\<close> for every
  field, and the template then reads \<^verbatim>\<open>undefined NaN undefined\<close>.
\<close>

definition formatDate :: "platform \<Rightarrow> jsval \<Rightarrow> jsval" where
  "formatDate p dateStr =
     (if \<not> truthy dateStr then JStr (js ''Today'')
      else
        (case ToString p dateStr of
           Inl e \<Rightarrow> dateStr
         | Inr str \<Rightarrow>
             (case Date_parse p (str @ js ''T00:00:00'') of
                None \<Rightarrow> JStr (js ''undefined NaN undefined'')
              | Some date \<Rightarrow>
                  JStr (days ! nat (getDay p date) @ js '' '' @ digits (nat (getDate p date)) @ js '' '' @
                        months ! nat (getMonth p date)))))"

section \<open>\<open>JSON.parse\<close>\<close>

text \<open>
  The grammar of JSON, read one code unit at a time by a machine with a stack of the arrays
  and objects that are still open. A text outside the grammar is a \<open>SyntaxError\<close>. A
  property written twice keeps its first place and its last value.
\<close>

fun assign :: "jsstring \<Rightarrow> jsval \<Rightarrow> (jsstring \<times> jsval) list \<Rightarrow> (jsstring \<times> jsval) list" where
  "assign k v [] = [(k, v)]"
| "assign k v ((k', v') # kvs) = (if k' = k then (k, v) # kvs else (k', v') # assign k v kvs)"

datatype frame = FArr "jsval list" | FObj "(jsstring \<times> jsval) list" jsstring

datatype numstate = NMinus | NZero | NInt | NDot | NFrac | NExp | NExpSign | NExpDigits

text \<open>
  \<open>InNum\<close> carries the sign, the digits of the mantissa read as one natural number, the
  count of those after the point, the sign of the exponent and the exponent.
\<close>

datatype mode =
    ExpectValue
  | ExpectValueOrEnd
  | ExpectKeyOrEnd
  | ExpectKey
  | ExpectColon
  | AfterValue
  | InStr bool jsstring
  | InEsc bool jsstring
  | InUni bool jsstring "nat list"
  | InLit jsstring jsval
  | InNum numstate bool nat nat bool nat

type_synonym pstate = "mode \<times> frame list \<times> jsval option"

definition is_json_ws :: "nat \<Rightarrow> bool" where
  "is_json_ws c = (c = 0x20 \<or> c = 0x09 \<or> c = 0x0A \<or> c = 0x0D)"

definition hex_value :: "nat \<Rightarrow> nat option" where
  "hex_value c =
     (if 48 \<le> c \<and> c \<le> 57 then Some (c - 48)
      else if 97 \<le> c \<and> c \<le> 102 then Some (c - 87)
      else if 65 \<le> c \<and> c \<le> 70 then Some (c - 55)
      else None)"

definition decimal_value :: "bool \<Rightarrow> nat \<Rightarrow> nat \<Rightarrow> bool \<Rightarrow> nat \<Rightarrow> rat" where
  "decimal_value neg m f eneg e =
     (let x = of_nat m * (if eneg then 1 / 10 ^ e else 10 ^ e) / 10 ^ f
      in if neg then - x else x)"

fun accepting :: "numstate \<Rightarrow> bool" where
  "accepting NZero = True"
| "accepting NInt = True"
| "accepting NFrac = True"
| "accepting NExpDigits = True"
| "accepting ns = False"

fun num_step :: "numstate \<Rightarrow> nat \<Rightarrow> numstate option" where
  "num_step NMinus c = (if c = 48 then Some NZero else if is_digit c then Some NInt else None)"
| "num_step NZero c =
     (if c = 0x2E then Some NDot else if c = 0x65 \<or> c = 0x45 then Some NExp else None)"
| "num_step NInt c =
     (if is_digit c then Some NInt else if c = 0x2E then Some NDot
      else if c = 0x65 \<or> c = 0x45 then Some NExp else None)"
| "num_step NDot c = (if is_digit c then Some NFrac else None)"
| "num_step NFrac c =
     (if is_digit c then Some NFrac else if c = 0x65 \<or> c = 0x45 then Some NExp else None)"
| "num_step NExp c =
     (if c = 0x2B \<or> c = 0x2D then Some NExpSign else if is_digit c then Some NExpDigits else None)"
| "num_step NExpSign c = (if is_digit c then Some NExpDigits else None)"
| "num_step NExpDigits c = (if is_digit c then Some NExpDigits else None)"

text \<open>A value is complete: it is the whole text, an element, or the value of a property.\<close>

fun complete :: "jsval \<Rightarrow> frame list \<Rightarrow> pstate" where
  "complete v [] = (AfterValue, [], Some v)"
| "complete v (FArr xs # st) = (AfterValue, FArr (xs @ [v]) # st, None)"
| "complete v (FObj kvs k # st) = (AfterValue, FObj (assign k v kvs) k # st, None)"

fun after_value :: "nat \<Rightarrow> frame list \<Rightarrow> jsval option \<Rightarrow> pstate option" where
  "after_value c [] r = (if is_json_ws c then Some (AfterValue, [], r) else None)"
| "after_value c (FArr xs # st) r =
     (if is_json_ws c then Some (AfterValue, FArr xs # st, r)
      else if c = 0x2C then Some (ExpectValue, FArr xs # st, r)
      else if c = 0x5D then Some (complete (JArr xs) st)
      else None)"
| "after_value c (FObj kvs k # st) r =
     (if is_json_ws c then Some (AfterValue, FObj kvs k # st, r)
      else if c = 0x2C then Some (ExpectKey, FObj kvs k # st, r)
      else if c = 0x7D then Some (complete (JObj kvs) st)
      else None)"

definition expect_value :: "mode \<Rightarrow> nat \<Rightarrow> frame list \<Rightarrow> jsval option \<Rightarrow> pstate option" where
  "expect_value m c st r =
     (if is_json_ws c then Some (m, st, r)
      else if c = 0x7B then Some (ExpectKeyOrEnd, FObj [] [] # st, r)
      else if c = 0x5B then Some (ExpectValueOrEnd, FArr [] # st, r)
      else if c = 0x22 then Some (InStr False [], st, r)
      else if c = 0x2D then Some (InNum NMinus True 0 0 False 0, st, r)
      else if c = 48 then Some (InNum NZero False 0 0 False 0, st, r)
      else if is_digit c then Some (InNum NInt False (c - 48) 0 False 0, st, r)
      else if c = 0x74 then Some (InLit (js ''rue'') (JBool True), st, r)
      else if c = 0x66 then Some (InLit (js ''alse'') (JBool False), st, r)
      else if c = 0x6E then Some (InLit (js ''ull'') JNull, st, r)
      else None)"

definition end_string :: "bool \<Rightarrow> jsstring \<Rightarrow> frame list \<Rightarrow> jsval option \<Rightarrow> pstate option" where
  "end_string key s st r =
     (if key then
        (case st of FObj kvs k # st' \<Rightarrow> Some (ExpectColon, FObj kvs s # st', r) | _ \<Rightarrow> None)
      else Some (complete (JStr s) st))"

fun step :: "platform \<Rightarrow> pstate \<Rightarrow> nat \<Rightarrow> pstate option" where
  "step p (ExpectValue, st, r) c = expect_value ExpectValue c st r"
| "step p (ExpectValueOrEnd, st, r) c =
     (if c = 0x5D then (case st of FArr xs # st' \<Rightarrow> Some (complete (JArr xs) st') | _ \<Rightarrow> None)
      else expect_value ExpectValueOrEnd c st r)"
| "step p (ExpectKeyOrEnd, st, r) c =
     (if is_json_ws c then Some (ExpectKeyOrEnd, st, r)
      else if c = 0x7D then (case st of FObj kvs k # st' \<Rightarrow> Some (complete (JObj kvs) st') | _ \<Rightarrow> None)
      else if c = 0x22 then Some (InStr True [], st, r)
      else None)"
| "step p (ExpectKey, st, r) c =
     (if is_json_ws c then Some (ExpectKey, st, r)
      else if c = 0x22 then Some (InStr True [], st, r)
      else None)"
| "step p (ExpectColon, st, r) c =
     (if is_json_ws c then Some (ExpectColon, st, r)
      else if c = 0x3A then Some (ExpectValue, st, r)
      else None)"
| "step p (AfterValue, st, r) c = after_value c st r"
| "step p (InStr key s, st, r) c =
     (if c = 0x22 then end_string key s st r
      else if c = 0x5C then Some (InEsc key s, st, r)
      else if c < 0x20 then None
      else Some (InStr key (s @ [c]), st, r))"
| "step p (InEsc key s, st, r) c =
     (if c = 0x22 \<or> c = 0x5C \<or> c = 0x2F then Some (InStr key (s @ [c]), st, r)
      else if c = 0x62 then Some (InStr key (s @ [0x08]), st, r)
      else if c = 0x66 then Some (InStr key (s @ [0x0C]), st, r)
      else if c = 0x6E then Some (InStr key (s @ [0x0A]), st, r)
      else if c = 0x72 then Some (InStr key (s @ [0x0D]), st, r)
      else if c = 0x74 then Some (InStr key (s @ [0x09]), st, r)
      else if c = 0x75 then Some (InUni key s [], st, r)
      else None)"
| "step p (InUni key s ds, st, r) c =
     (case hex_value c of
        None \<Rightarrow> None
      | Some d \<Rightarrow>
          if length ds = 3 then Some (InStr key (s @ [foldl (\<lambda>a h. 16 * a + h) 0 (ds @ [d])]), st, r)
          else Some (InUni key s (ds @ [d]), st, r))"
| "step p (InLit rest v, st, r) c =
     (case rest of
        [] \<Rightarrow> None
      | x # rest' \<Rightarrow>
          if c \<noteq> x then None
          else if rest' = [] then Some (complete v st)
          else Some (InLit rest' v, st, r))"
| "step p (InNum ns neg m f eneg e, st, r) c =
     (case num_step ns c of
        Some ns' \<Rightarrow>
          Some (if ns' = NZero \<or> ns' = NInt then InNum ns' neg (10 * m + (c - 48)) f eneg e
                else if ns' = NFrac then InNum ns' neg (10 * m + (c - 48)) (Suc f) eneg e
                else if ns' = NExpSign then InNum ns' neg m f (c = 0x2D) e
                else if ns' = NExpDigits then InNum ns' neg m f eneg (10 * e + (c - 48))
                else InNum ns' neg m f eneg e, st, r)
      | None \<Rightarrow>
          if accepting ns then
            (case complete (JNum (number_of p (decimal_value neg m f eneg e))) st of
               (m', st', r') \<Rightarrow> after_value c st' r')
          else None)"

fun run :: "platform \<Rightarrow> pstate \<Rightarrow> jsstring \<Rightarrow> pstate option" where
  "run p s [] = Some s"
| "run p s (c # cs) = (case step p s c of None \<Rightarrow> None | Some s' \<Rightarrow> run p s' cs)"

text \<open>The end of the text: a value is complete and nothing is open.\<close>

fun finish :: "platform \<Rightarrow> pstate \<Rightarrow> jsval option" where
  "finish p (AfterValue, [], Some v) = Some v"
| "finish p (InNum ns neg m f eneg e, [], r) =
     (if accepting ns then Some (JNum (number_of p (decimal_value neg m f eneg e))) else None)"
| "finish p s = None"

definition JSON_parse :: "platform \<Rightarrow> jsstring \<Rightarrow> exn + jsval" where
  "JSON_parse p text =
     (case run p (ExpectValue, [], None) text of
        None \<Rightarrow> Inl SyntaxError
      | Some s \<Rightarrow> (case finish p s of None \<Rightarrow> Inl SyntaxError | Some v \<Rightarrow> Inr v))"

text \<open>The outcome of a call: the state it leaves, and whether it returned or threw.\<close>

datatype 's res = Returned 's | Thrown exn 's

section \<open>Application state and document\<close>

record cleanup =
  cleanup_id :: nat
  cleanup_name :: jsstring
  cleanup_lat :: rat
  cleanup_lon :: rat
  cleanup_volunteers :: nat
  cleanup_date :: jsstring
  cleanup_isNext :: bool

record weather =
  temperature :: jsnum
  condition :: jsstring
  waves :: jsstring
  windSpeed :: jsnum
  humidity :: jsnum
  uvIndex :: jsnum
  source :: jsstring

text \<open>A toast appended to \<open>document.body\<close> by \<open>showNotification\<close>.\<close>

record notification =
  n_className :: jsstring
  n_textContent :: jsstring
  n_background :: jsstring

text \<open>
  A marker node appended to the \<open>map-markers\<close> container: its class, the three values
  interpolated into its markup, and the event its click handler reports.
\<close>

record marker =
  m_className :: jsstring
  m_name :: jsstring
  m_volunteers :: nat
  m_date :: jsstring
  m_click :: cleanup

text \<open>
  The card \<open>updateWeatherDisplay\<close> writes into \<open>weather-display\<close>: the values
  interpolated into its markup. For a card of the forecast, the six texts interpolated
  into the template of \<open>displayForecast\<close>.
\<close>

record weather_card =
  wc_icon :: jsstring
  wc_temp :: jsnum
  wc_tempUnit :: jsstring
  wc_condition :: jsstring
  wc_waves :: jsstring
  wc_windSpeed :: jsnum
  wc_speedUnit :: jsstring
  wc_humidity :: jsnum
  wc_uvIndex :: jsnum
  wc_source :: jsstring

record forecast_card =
  fc_date :: jsstring
  fc_icon :: jsstring
  fc_temp :: jsstring
  fc_condition :: jsstring
  fc_minTemp :: jsstring
  fc_humidity :: jsstring

text \<open>
  \<open>appState\<close> together with the part of the document the functions write. An element
  looked up at load time (\<open>DOM.mapMarkers\<close>, \<open>DOM.weatherDisplay\<close>,
  \<open>DOM.forecastGrid\<close>) is \<open>None\<close> when the page has no such element; the content of
  \<open>weather-display\<close> is \<open>None\<close> while it still has the markup of the page, and
  \<open>forecastGrid\<close> is the \<open>innerHTML\<close> of the grid, a string.
  \<open>position_requests\<close> counts the calls of \<open>navigator.geolocation.getCurrentPosition\<close>
  issued so far, \<open>random_draws\<close> those of \<open>Math.random\<close>.
\<close>

record app =
  userLocation :: "(jsval \<times> jsval) option"
  weatherData :: "weather option"
  forecastData :: jsval
  cleanups :: "cleanup list"
  userPreferences :: "(jsstring \<times> jsval) list"
  mapMarkers :: "marker list option"
  weatherDisplay :: "weather_card option option"
  forecastGrid :: "jsstring option"
  notifications :: "notification list"
  position_requests :: nat
  random_draws :: nat

definition defaultPreferences :: "(jsstring \<times> jsval) list" where
  "defaultPreferences =
     [(js ''units'', JStr (js ''metric'')),
      (js ''notifications'', JBool True),
      (js ''darkMode'', JBool False)]"

section \<open>Notifications\<close>

text \<open>
  \<open>showNotification\<close> appends a toast to the body of the document. The timers that take
  it away three seconds later are outside this development: \<open>notifications\<close> lists the
  toasts in the order they were shown.
\<close>

definition showNotification :: "jsstring \<Rightarrow> jsstring \<Rightarrow> app \<Rightarrow> app" where
  "showNotification message type s =
     s\<lparr>notifications := notifications s @
        [\<lparr>n_className = js ''notification notification-'' @ type,
          n_textContent = message,
          n_background =
            (if type = js ''error'' then js ''#ff4757''
             else if type = js ''success'' then js ''#06d6a0''
             else js ''#00B4D8'')\<rparr>]\<rparr>"

section \<open>Location\<close>

text \<open>
  \<open>errorMessages[error.code]\<close>: the object literal has the keys 1, 2 and 3. The code of a
  \<open>GeolocationPositionError\<close> is a number (an unsigned short).
\<close>

definition errorMessages :: "nat \<Rightarrow> jsstring option" where
  "errorMessages code =
     (if code = 1 then Some (js ''Permission denied. Please enable location access.'')
      else if code = 2 then Some (js ''Location unavailable. Try again.'')
      else if code = 3 then Some (js ''Location request timed out.'')
      else None)"

definition handleLocationError :: "nat \<Rightarrow> app \<Rightarrow> app" where
  "handleLocationError code s =
     showNotification
       (case errorMessages code of Some m \<Rightarrow> m | None \<Rightarrow> js ''Location error'')
       (js ''error'') s"

text \<open>
  \<open>handleLocateUser\<close>, up to its return: \<open>geolocation\<close> says whether
  \<open>navigator.geolocation\<close> is present. The two callbacks handed to
  \<open>getCurrentPosition\<close> run later, when the platform answers the request.
\<close>

definition handleLocateUser :: "bool \<Rightarrow> app \<Rightarrow> app" where
  "handleLocateUser geolocation s =
     (if \<not> geolocation then showNotification (js ''Geolocation not supported'') (js ''error'') s
      else
        (let s1 = showNotification ([0xD83D, 0xDCCD] @ js '' Finding your location...'') (js ''info'') s
         in s1\<lparr>position_requests := Suc (position_requests s1)\<rparr>))"

section \<open>Markers\<close>

definition make_marker :: "cleanup \<Rightarrow> marker" where
  "make_marker c =
     \<lparr>m_className = js ''map-marker'',
      m_name = cleanup_name c,
      m_volunteers = cleanup_volunteers c,
      m_date = cleanup_date c,
      m_click = c\<rparr>"

text \<open>The \<open>forEach\<close> loop of \<open>updateMapMarkers\<close>: one \<open>appendChild\<close> per event.\<close>

fun append_markers :: "cleanup list \<Rightarrow> marker list \<Rightarrow> marker list" where
  "append_markers [] children = children"
| "append_markers (c # cs) children = append_markers cs (children @ [make_marker c])"

definition updateMapMarkers :: "app \<Rightarrow> app" where
  "updateMapMarkers s =
     (case mapMarkers s of
        None \<Rightarrow> s
      | Some _ \<Rightarrow> s\<lparr>mapMarkers := Some (append_markers (cleanups s) [])\<rparr>)"

definition generateMockCleanups :: "cleanup list" where
  "generateMockCleanups =
     [\<lparr>cleanup_id = 0, cleanup_name = js ''Pasir Ris Beach'',
        cleanup_lat = 1381497 / 1000000, cleanup_lon = 103955574 / 1000000,
        cleanup_volunteers = 52, cleanup_date = js ''2025-12-02'', cleanup_isNext = True\<rparr>,
      \<lparr>cleanup_id = 1, cleanup_name = js ''Malibu Beach Cleanup'',
        cleanup_lat = 340195 / 10000, cleanup_lon = - (1186814 / 10000),
        cleanup_volunteers = 42, cleanup_date = js ''2025-12-05'', cleanup_isNext = False\<rparr>,
      \<lparr>cleanup_id = 2, cleanup_name = js ''Santa Monica Pier Cleanup'',
        cleanup_lat = 340195 / 10000, cleanup_lon = - (1184965 / 10000),
        cleanup_volunteers = 28, cleanup_date = js ''2025-12-06'', cleanup_isNext = False\<rparr>,
      \<lparr>cleanup_id = 3, cleanup_name = js ''Huntington Beach Drive'',
        cleanup_lat = 338815 / 10000, cleanup_lon = - (1180023 / 10000),
        cleanup_volunteers = 35, cleanup_date = js ''2025-12-07'', cleanup_isNext = False\<rparr>,
      \<lparr>cleanup_id = 4, cleanup_name = js ''Laguna Beach Rally'',
        cleanup_lat = 335427 / 10000, cleanup_lon = - (1177827 / 10000),
        cleanup_volunteers = 18, cleanup_date = js ''2025-12-08'', cleanup_isNext = False\<rparr>]"

text \<open>
  \<open>initializeMap\<close> stores the static list and renders it; \<open>highlightNextCleanup\<close> only
  writes to the console.
\<close>

definition initializeMap :: "app \<Rightarrow> app" where
  "initializeMap s = updateMapMarkers (s\<lparr>cleanups := generateMockCleanups\<rparr>)"

section \<open>Preferences\<close>

text \<open>
  The own enumerable properties an object spread copies from a value: those of an object,
  the elements of an array and the characters of a string under their indices, none for
  the other values. The properties are kept in the order of their creation; the engine
  lists properties named by an array index first.
\<close>

fun index_props :: "nat \<Rightarrow> jsval list \<Rightarrow> (jsstring \<times> jsval) list" where
  "index_props i [] = []"
| "index_props i (x # xs) = (digits i, x) # index_props (Suc i) xs"

fun own_properties :: "jsval \<Rightarrow> (jsstring \<times> jsval) list" where
  "own_properties (JObj kvs) = kvs"
| "own_properties (JArr xs) = index_props 0 xs"
| "own_properties (JStr s) = index_props 0 (map (\<lambda>c. JStr [c]) s)"
| "own_properties v = []"

definition spread :: "(jsstring \<times> jsval) list \<Rightarrow> jsval \<Rightarrow> (jsstring \<times> jsval) list" where
  "spread target v = foldl (\<lambda>obj (k, x). assign k x obj) target (own_properties v)"

text \<open>
  \<open>loadUserPreferences\<close>: \<open>saved\<close> is what \<open>localStorage.getItem('appPreferences')\<close>
  returns, \<open>None\<close> for \<open>null\<close>.
\<close>

definition loadUserPreferences :: "platform \<Rightarrow> jsstring option \<Rightarrow> app \<Rightarrow> app res" where
  "loadUserPreferences p saved s =
     (case saved of
        None \<Rightarrow> Returned s
      | Some str \<Rightarrow>
          if str = [] then Returned s
          else
            (case JSON_parse p str of
               Inl e \<Rightarrow> Thrown e s
             | Inr v \<Rightarrow> Returned (s\<lparr>userPreferences := spread (userPreferences s) v\<rparr>)))"

section \<open>Weather\<close>

definition icon_of :: "platform \<Rightarrow> jsstring \<Rightarrow> jsstring" where
  "icon_of p cond =
     (let condition_lower = toLowerCase p cond
      in if includes_str condition_lower (js ''sunny'') \<or> includes_str condition_lower (js ''clear'')
           then [0x2600, 0xFE0F]
         else if includes_str condition_lower (js ''cloudy'') \<or> includes_str condition_lower (js ''cloud'')
           then [0x2601, 0xFE0F]
         else if includes_str condition_lower (js ''rain'') \<or> includes_str condition_lower (js ''shower'')
           then [0xD83C, 0xDF27, 0xFE0F]
         else if includes_str condition_lower (js ''thunder'') \<or> includes_str condition_lower (js ''storm'')
           then [0x26C8, 0xFE0F]
         else if includes_str condition_lower (js ''wind'') then [0xD83D, 0xDCA8]
         else if includes_str condition_lower (js ''fog'') \<or> includes_str condition_lower (js ''haze'')
           then [0xD83C, 0xDF2B, 0xFE0F]
         else [0xD83C, 0xDF24, 0xFE0F])"

text \<open>
  \<open>getWeatherIcon\<close>: \<open>(condition || '').toLowerCase()\<close> is a call of a method only a
  string has; on any other value that is not falsy it throws a \<open>TypeError\<close>.
\<close>

definition getWeatherIcon :: "platform \<Rightarrow> jsval \<Rightarrow> exn + jsstring" where
  "getWeatherIcon p cond =
     (case (if truthy cond then cond else JStr []) of
        JStr s \<Rightarrow> Inr (icon_of p s)
      | _ \<Rightarrow> Inl TypeError)"

text \<open>
  \<open>updateWeatherDisplay\<close>: the condition of a weather record is a string, for which
  \<open>getWeatherIcon\<close> returns.
\<close>

definition updateWeatherDisplay :: "platform \<Rightarrow> weather \<Rightarrow> app \<Rightarrow> app" where
  "updateWeatherDisplay p w s =
     (let metric = (map_of (userPreferences s) (js ''units'') = Some (JStr (js ''metric'')));
          tempUnit = (if metric then 0xB0 # js ''C'' else 0xB0 # js ''F'');
          speedUnit = (if metric then js ''km/h'' else js ''mph'')
      in case weatherDisplay s of
           None \<Rightarrow> s
         | Some _ \<Rightarrow>
             s\<lparr>weatherDisplay := Some (Some
                \<lparr>wc_icon = icon_of p (condition w),
                 wc_temp = Math_round (temperature w),
                 wc_tempUnit = tempUnit,
                 wc_condition = condition w,
                 wc_waves = waves w,
                 wc_windSpeed = windSpeed w,
                 wc_speedUnit = speedUnit,
                 wc_humidity = humidity w,
                 wc_uvIndex = uvIndex w,
                 wc_source = (if source w \<noteq> [] then source w else js ''NEA'')\<rparr>)\<rparr>)"

text \<open>
  The template of one card, with the six interpolated texts in their places. Nothing is
  escaped: the texts are part of the markup.
\<close>

definition card_html :: "forecast_card \<Rightarrow> jsstring" where
  \<open>card_html c =
     [0x0A] @ js ''            <div class="forecast-card">'' @
     [0x0A] @ js ''                <h4>'' @ fc_date c @ js ''</h4>'' @
     [0x0A] @ js ''                <span class="forecast-icon">'' @ fc_icon c @ js ''</span>'' @
     [0x0A] @ js ''                <div class="forecast-temp">'' @ fc_temp c @ [0xB0] @ js ''C</div>'' @
     [0x0A] @ js ''                <div class="forecast-condition">'' @ fc_condition c @ js ''</div>'' @
     [0x0A] @ js ''                <div class="forecast-details">'' @
     [0x0A] @ js ''                    Low: '' @ fc_minTemp c @ [0xB0] @ js ''C<br>'' @
     [0x0A] @ js ''                    Humidity: '' @ fc_humidity c @ js ''%'' @
     [0x0A] @ js ''                </div>'' @
     [0x0A] @ js ''            </div>'' @
     [0x0A] @ js ''        ''\<close>

text \<open>
  One pass of the \<open>forEach\<close> of \<open>displayForecast\<close>: the texts of the card of \<open>day\<close>,
  and the count of \<open>Math.random\<close> draws after it. \<open>day.date\<close> throws when \<open>day\<close> is
  \<open>null\<close>, \<open>getWeatherIcon\<close> may throw, and so may each conversion to a string the
  template makes, in the order of the template; the draw for the humidity comes last.
\<close>

definition conditions :: "jsval list" where
  "conditions = [JStr (js ''Sunny''), JStr (js ''Partly Cloudy''), JStr (js ''Thundery Showers'')]"

definition forecast_card_of :: "platform \<Rightarrow> jsval \<Rightarrow> int \<Rightarrow> nat \<Rightarrow> (exn + forecast_card) \<times> nat" where
  "forecast_card_of p day index n0 =
     (if nullish day then (Inl TypeError, n0)
      else
        (let date = (if truthy (get_prop day (js ''date'')) then get_prop day (js ''date'')
                     else JStr (getDateString p index));
             (temp, n1) =
               (if truthy (get_prop day (js ''high'')) then (get_prop day (js ''high''), n0)
                else (JNum (Math_round (Finite (25 + random p n0 * 5))), Suc n0));
             (minTemp, n2) =
               (if truthy (get_prop day (js ''low'')) then (get_prop day (js ''low''), n1)
                else (JNum (Math_round (Finite (20 + random p n1 * 3))), Suc n1));
             (cond, n3) =
               (if truthy (get_prop day (js ''forecast'')) then (get_prop day (js ''forecast''), n2)
                else
                  (let i = \<lfloor>random p n2 * 3\<rfloor>
                   in (if 0 \<le> i \<and> i < 3 then conditions ! nat i else JUndefined, Suc n2)))
         in case getWeatherIcon p cond of
              Inl e \<Rightarrow> (Inl e, n3)
            | Inr icon \<Rightarrow>
                (case ToString p (formatDate p date) of
                   Inl e \<Rightarrow> (Inl e, n3)
                 | Inr date_text \<Rightarrow>
                     (case ToString p temp of
                        Inl e \<Rightarrow> (Inl e, n3)
                      | Inr temp_text \<Rightarrow>
                          (case ToString p cond of
                             Inl e \<Rightarrow> (Inl e, n3)
                           | Inr cond_text \<Rightarrow>
                               (case ToString p minTemp of
                                  Inl e \<Rightarrow> (Inl e, n3)
                                | Inr minTemp_text \<Rightarrow>
                                    (Inr \<lparr>fc_date = date_text,
                                          fc_icon = icon,
                                          fc_temp = temp_text,
                                          fc_condition = cond_text,
                                          fc_minTemp = minTemp_text,
                                          fc_humidity =
                                            Number_toString p (Math_round (Finite (60 + random p n3 * 20)))\<rparr>,
                                     Suc n3)))))))"

text \<open>The loop: \<open>forecastHTML\<close> is the string the passes add their cards to.\<close>

fun forecast_cards ::
  "platform \<Rightarrow> jsval list \<Rightarrow> int \<Rightarrow> nat \<Rightarrow> jsstring \<Rightarrow> (exn + jsstring) \<times> nat" where
  "forecast_cards p [] index n forecastHTML = (Inr forecastHTML, n)"
| "forecast_cards p (day # rest) index n forecastHTML =
     (case forecast_card_of p day index n of
        (Inl e, n') \<Rightarrow> (Inl e, n')
      | (Inr c, n') \<Rightarrow> forecast_cards p rest (index + 1) n' (forecastHTML @ card_html c))"

definition displayForecast :: "platform \<Rightarrow> jsval \<Rightarrow> app \<Rightarrow> app res" where
  "displayForecast p forecast s =
     (if forecastGrid s = None \<or> \<not> truthy forecast then Returned s
      else
        (let forecasts = (case forecast of JArr xs \<Rightarrow> xs | _ \<Rightarrow> [])
         in case forecast_cards p (take 4 forecasts) 0 (random_draws s) [] of
              (Inl e, n) \<Rightarrow> Thrown e (s\<lparr>random_draws := n\<rparr>)
            | (Inr forecastHTML, n) \<Rightarrow>
                Returned (s\<lparr>forecastGrid := Some forecastHTML, random_draws := n\<rparr>)))"










definition mockWeatherData :: weather where
  "mockWeatherData =
     \<lparr>temperature = Finite 22,
      condition = js ''Sunny'',
      waves = js ''1-1.5m'',
      windSpeed = Finite 13,
      humidity = Finite 65,
      uvIndex = Finite 7,
      source = js ''Mock''\<rparr>"

definition forecast_entry :: "jsstring \<Rightarrow> rat \<Rightarrow> rat \<Rightarrow> jsstring \<Rightarrow> jsval" where
  "forecast_entry date high low forecast =
     JObj [(js ''date'', JStr date), (js ''high'', JNum (Finite high)),
           (js ''low'', JNum (Finite low)), (js ''forecast'', JStr forecast)]"

definition mockForecast :: "platform \<Rightarrow> jsval" where
  "mockForecast p =
     JArr [forecast_entry (getDateString p 0) 32 24 (js ''Sunny''),
           forecast_entry (getDateString p 1) 30 23 (js ''Partly Cloudy''),
           forecast_entry (getDateString p 2) 28 22 (js ''Thundery Showers''),
           forecast_entry (getDateString p 3) 31 24 (js ''Sunny'')]"

definition loadMockWeatherData :: "platform \<Rightarrow> app \<Rightarrow> app res" where
  "loadMockWeatherData p s =
     (let s1 = showNotification ([0x26A0, 0xFE0F] @ js '' Using mock weather data (API unavailable)'')
                 (js ''info'') s;
          s2 = s1\<lparr>weatherData := Some mockWeatherData\<rparr>;
          s3 = updateWeatherDisplay p mockWeatherData s2
      in displayForecast p (mockForecast p) s3)"

text \<open>
  What a \<open>fetch\<close> and the \<open>response.json()\<close> after it come to: the request is rejected
  (a network error), or answered with a status that is a success or not and a body that
  parses to a value or does not.
\<close>

datatype body = Body_rejected exn | Json jsval

datatype fetched = Rejected exn | Response bool body

text \<open>
  The body of \<open>fetchNEAWeather\<close> once the data is parsed. The mean of the readings is the
  platform's; \<open>readings.reduce\<close> is a method only an array has, and its callback reads
  \<open>r.value\<close> of every element.
\<close>

definition weather_of_data :: "platform \<Rightarrow> jsval \<Rightarrow> app \<Rightarrow> app res" where
  "weather_of_data p data s =
     (let items = get_prop data (js ''items'')
      in if truthy items \<and> gt_zero p (get_prop items (js ''length'')) then
           (if nullish (index0 items) then Thrown TypeError s
            else
              (case get_prop (index0 items) (js ''readings'') of
                 JArr readings \<Rightarrow>
                   if list_ex nullish readings then Thrown TypeError s
                   else
                     (let weatherData =
                            \<lparr>temperature = mean_1dp p (map (\<lambda>r. get_prop r (js ''value'')) readings),
                             condition = js ''Partly Cloudy'',
                             waves = js ''0.8-1.2m'',
                             windSpeed = Finite 12,
                             humidity = Finite 70,
                             uvIndex = Finite 6,
                             source = js ''NEA''\<rparr>;
                          s1 = s\<lparr>weatherData := Some weatherData\<rparr>;
                          s2 = updateWeatherDisplay p weatherData s1
                      in Returned (showNotification (0x2705 # js '' Weather data loaded from NEA'')
                                     (js ''success'') s2))
               | _ \<Rightarrow> Thrown TypeError s))
         else Returned s)"

definition location_of_data :: "platform \<Rightarrow> jsval \<Rightarrow> app \<Rightarrow> app res" where
  "location_of_data p data s =
     (let metadata = get_prop data (js ''metadata'');
          stations = get_prop metadata (js ''stations'')
      in if truthy metadata \<and> truthy stations \<and> gt_zero p (get_prop stations (js ''length'')) then
           (let station = index0 stations
            in if nullish station then Thrown TypeError s
               else if nullish (get_prop station (js ''location'')) then Thrown TypeError s
               else Returned (s\<lparr>userLocation :=
                      Some (get_prop (get_prop station (js ''location'')) (js ''latitude''),
                            get_prop (get_prop station (js ''location'')) (js ''longitude''))\<rparr>))
         else Returned s)"

definition fetchNEAWeather :: "platform \<Rightarrow> fetched \<Rightarrow> app \<Rightarrow> app res" where
  "fetchNEAWeather p response s =
     (case response of
        Rejected e \<Rightarrow> Thrown e s
      | Response ok b \<Rightarrow>
          if \<not> ok then Thrown (Error (js ''NEA API error'')) s
          else
            (case b of
               Body_rejected e \<Rightarrow> Thrown e s
             | Json data \<Rightarrow>
                 if nullish data then Thrown TypeError s
                 else
                   (case location_of_data p data s of
                      Thrown e s1 \<Rightarrow> Thrown e s1
                    | Returned s1 \<Rightarrow> weather_of_data p data s1)))"

definition fetchNEAForecast :: "platform \<Rightarrow> fetched \<Rightarrow> app \<Rightarrow> app res" where
  "fetchNEAForecast p response s =
     (case response of
        Rejected e \<Rightarrow> Thrown e s
      | Response ok b \<Rightarrow>
          if \<not> ok then Thrown (Error (js ''NEA Forecast API error'')) s
          else
            (case b of
               Body_rejected e \<Rightarrow> Thrown e s
             | Json data \<Rightarrow>
                 if nullish data then Thrown TypeError s
                 else
                   (let items = get_prop data (js ''items'')
                    in if truthy items \<and> gt_zero p (get_prop items (js ''length'')) then
                         (if nullish (index0 items) then Thrown TypeError s
                          else
                            (let forecast = get_prop (index0 items) (js ''forecasts'')
                             in displayForecast p forecast (s\<lparr>forecastData := forecast\<rparr>)))
                       else Returned s)))"

text \<open>
  \<open>loadWeatherData\<close>, with the answers to its two requests. The two \<^verbatim>\<open>await\<close>s are
  taken in sequence; what other handlers do while a request is pending is not part of the
  call.
\<close>

definition loadWeatherData :: "platform \<Rightarrow> fetched \<Rightarrow> fetched \<Rightarrow> app \<Rightarrow> app res" where
  "loadWeatherData p weather_response forecast_response s =
     (let s0 = showNotification
                 ([0xD83C, 0xDF24, 0xFE0F] @ js '' Loading real-time weather data from NEA...'')
                 (js ''info'') s
      in case fetchNEAWeather p weather_response s0 of
           Thrown e s1 \<Rightarrow> loadMockWeatherData p s1
         | Returned s1 \<Rightarrow>
             (case fetchNEAForecast p forecast_response s1 of
                Thrown e s2 \<Rightarrow> loadMockWeatherData p s2
              | Returned s2 \<Rightarrow> Returned s2))"

text \<open>
  A request has failed when it is rejected, when its status is not a success, or when its
  body does not parse: the three cases in which \<open>fetchNEAWeather\<close> and
  \<open>fetchNEAForecast\<close> throw before they look at any data.
\<close>

definition fetch_failed :: "fetched \<Rightarrow> bool" where
  "fetch_failed r =
     (case r of
        Rejected e \<Rightarrow> True
      | Response ok b \<Rightarrow>
          (if ok then (case b of Body_rejected e \<Rightarrow> True | Json data \<Rightarrow> False) else True))"




fun state_of :: "'s res \<Rightarrow> 's" where
  "state_of (Returned s) = s"
| "state_of (Thrown e s) = s"

section \<open>A concrete platform and page\<close>

text \<open>
  A browser in Singapore (UTC+8 all year) at 07:00 on 2 December 2025, that is
  2025-12-01T23:00:00Z. Its \<open>toLowerCase\<close> is right on ASCII; the parts of the platform the
  runs below do not reach are given plain values. The page has the three elements the
  script writes to, and \<open>appState\<close> is as the script creates it.
\<close>

definition ascii_lower :: "nat \<Rightarrow> nat" where
  "ascii_lower c = (if 65 \<le> c \<and> c \<le> 90 then c + 32 else c)"

definition singapore :: platform where
  "singapore =
     \<lparr>now = 1764630000000,
      tza_utc = (\<lambda>t. 28800000),
      tza_local = (\<lambda>t. 28800000),
      date_parse_other = (\<lambda>s. None),
      number_text = (\<lambda>n. []),
      to_number = (\<lambda>v. NaN),
      toLowerCase = map ascii_lower,
      random = (\<lambda>n. 0),
      number_of = Finite,
      mean_1dp = (\<lambda>vs. NaN)\<rparr>"

definition page :: app where
  "page =
     \<lparr>userLocation = None, weatherData = None, forecastData = JNull, cleanups = [],
      userPreferences = defaultPreferences,
      mapMarkers = Some [], weatherDisplay = Some None, forecastGrid = Some [],
      notifications = [], position_requests = 0, random_draws = 0\<rparr>"


section \<open>Email validation\<close>

text \<open>
  C4. \<open>isValidEmail\<close> accepts \<^verbatim>\<open>a@b.co\<close> and rejects \<^verbatim>\<open>a@b\<close> and \<^verbatim>\<open>abc\<close>.
\<close>

theorem isValidEmail_examples:
  "isValidEmail (js ''a@b.co'') \<and> \<not> isValidEmail (js ''a@b'') \<and> \<not> isValidEmail (js ''abc'')"
  by (simp add: isValidEmail_def emailRegex_def js_def is_space_def)

section \<open>Location errors\<close>

text \<open>
  C5. \<open>handleLocationError\<close> shows one error notification whose text is fixed by the code
  of the error: the permission message for 1, the unavailable message for 2, the timeout
  message for 3, and \<^verbatim>\<open>Location error\<close> for every other code.
\<close>

theorem handleLocationError_message:
  "handleLocationError code s =
     s\<lparr>notifications := notifications s @
        [\<lparr>n_className = js ''notification notification-error'',
          n_textContent =
            (if code = 1 then js ''Permission denied. Please enable location access.''
             else if code = 2 then js ''Location unavailable. Try again.''
             else if code = 3 then js ''Location request timed out.''
             else js ''Location error''),
          n_background = js ''#ff4757''\<rparr>]\<rparr>"
  by (simp add: handleLocationError_def showNotification_def errorMessages_def js_def)

text \<open>
  C6. Without the geolocation capability, \<open>handleLocateUser\<close> shows the error
  notification and returns: no position is requested, and the stored user location (like
  the rest of the state) is as before.
\<close>

theorem handleLocateUser_unsupported:
  "handleLocateUser False s =
     s\<lparr>notifications := notifications s @
        [\<lparr>n_className = js ''notification notification-error'',
          n_textContent = js ''Geolocation not supported'',
          n_background = js ''#ff4757''\<rparr>]\<rparr> \<and>
   position_requests (handleLocateUser False s) = position_requests s \<and>
   userLocation (handleLocateUser False s) = userLocation s"
  by (simp add: handleLocateUser_def showNotification_def js_def)

section \<open>Markers\<close>

lemma append_markers_eq: "append_markers cs children = children @ map make_marker cs"
  by (induction cs arbitrary: children) simp_all

text \<open>
  C7. When the page has the marker container, two calls of \<open>updateMapMarkers\<close> in a row
  leave in it exactly one node for each event of \<open>appState.cleanups\<close>, in the order of the
  list, and the second call changes nothing.
\<close>

theorem updateMapMarkers_twice:
  assumes "mapMarkers s \<noteq> None"
  shows "mapMarkers (updateMapMarkers (updateMapMarkers s)) = Some (map make_marker (cleanups s)) \<and>
         length (the (mapMarkers (updateMapMarkers (updateMapMarkers s)))) = length (cleanups s) \<and>
         updateMapMarkers (updateMapMarkers s) = updateMapMarkers s"
  using assms by (auto simp: updateMapMarkers_def append_markers_eq)

theorem updateMapMarkers_twice_witness:
  "mapMarkers (initializeMap page) \<noteq> None \<and>
   map m_name (the (mapMarkers (updateMapMarkers (updateMapMarkers (initializeMap page))))) =
     [js ''Pasir Ris Beach'', js ''Malibu Beach Cleanup'', js ''Santa Monica Pier Cleanup'',
      js ''Huntington Beach Drive'', js ''Laguna Beach Rally'']"
proof -
  have h: "mapMarkers (initializeMap page) \<noteq> None"
    by (simp add: initializeMap_def updateMapMarkers_def page_def)
  have c: "cleanups (initializeMap page) = generateMockCleanups"
    by (simp add: initializeMap_def updateMapMarkers_def page_def)
  have "mapMarkers (updateMapMarkers (updateMapMarkers (initializeMap page))) =
      Some (map make_marker generateMockCleanups)"
    using updateMapMarkers_twice [OF h, THEN conjunct1] c by simp
  then show ?thesis
    using h by (simp add: generateMockCleanups_def make_marker_def)
qed

section \<open>The weather fallback\<close>

lemma showNotification_fields [simp]:
  "weatherDisplay (showNotification m t s) = weatherDisplay s"
  "weatherData (showNotification m t s) = weatherData s"
  "forecastGrid (showNotification m t s) = forecastGrid s"
  "userPreferences (showNotification m t s) = userPreferences s"
  by (simp_all add: showNotification_def)

lemma updateWeatherDisplay_fields [simp]:
  "weatherData (updateWeatherDisplay p w s) = weatherData s"
  "forecastGrid (updateWeatherDisplay p w s) = forecastGrid s"
  "(weatherDisplay (updateWeatherDisplay p w s) = None) = (weatherDisplay s = None)"
  by (simp_all add: updateWeatherDisplay_def Let_def split: option.splits)

lemma displayForecast_fields:
  "weatherData (state_of (displayForecast p f s)) = weatherData s"
  "weatherDisplay (state_of (displayForecast p f s)) = weatherDisplay s"
  by (simp_all add: displayForecast_def Let_def split: prod.splits sum.splits)

lemma getWeatherIcon_string: "f \<noteq> [] \<Longrightarrow> getWeatherIcon p (JStr f) = Inr (icon_of p f)"
  by (simp add: getWeatherIcon_def)

lemma forecast_entry_props:
  "nullish (forecast_entry d h l f) = False"
  "get_prop (forecast_entry d h l f) (js ''date'') = JStr d"
  "get_prop (forecast_entry d h l f) (js ''high'') = JNum (Finite h)"
  "get_prop (forecast_entry d h l f) (js ''low'') = JNum (Finite l)"
  "get_prop (forecast_entry d h l f) (js ''forecast'') = JStr f"
  by (simp_all add: forecast_entry_def js_def)

text \<open>
  The card of an entry whose four fields are truthy takes nothing from \<open>Math.random\<close> but
  its humidity line.
\<close>

lemma formatDate_string: "\<exists>t. formatDate p (JStr d) = JStr t"
  by (simp add: formatDate_def split: option.splits)

lemma forecast_card_of_entry_eq:
  "d \<noteq> [] \<Longrightarrow> h \<noteq> 0 \<Longrightarrow> l \<noteq> 0 \<Longrightarrow> f \<noteq> [] \<Longrightarrow> formatDate p (JStr d) = JStr t \<Longrightarrow>
   forecast_card_of p (forecast_entry d h l f) i n =
     (Inr \<lparr>fc_date = t, fc_icon = icon_of p f, fc_temp = Number_toString p (Finite h),
           fc_condition = f, fc_minTemp = Number_toString p (Finite l),
           fc_humidity = Number_toString p (Math_round (Finite (60 + random p n * 20)))\<rparr>, Suc n)"
  by (simp add: forecast_card_of_def forecast_entry_props Let_def getWeatherIcon_string)

lemma forecast_card_of_entry:
  "f \<noteq> [] \<Longrightarrow> \<exists>c n'. forecast_card_of p (forecast_entry d h l f) i n = (Inr c, n')"
proof -
  assume f: "f \<noteq> []"
  obtain t where t: "formatDate p (JStr d) = JStr t" using formatDate_string by blast
  obtain u where u: "formatDate p (JStr (getDateString p i)) = JStr u" using formatDate_string by blast
  show ?thesis
    using f t u
    by (simp add: forecast_card_of_def forecast_entry_props Let_def getWeatherIcon_string split: prod.splits)
qed

lemma forecast_cards_entries:
  "\<forall>d \<in> set ds. \<exists>dt h l f. d = forecast_entry dt h l f \<and> f \<noteq> [] \<Longrightarrow>
   \<exists>cs n'. forecast_cards p ds i n acc = (Inr cs, n')"
proof (induction ds arbitrary: i n acc)
  case Nil
  then show ?case by simp
next
  case (Cons d ds)
  then obtain dt h l f where d: "d = forecast_entry dt h l f" "f \<noteq> []" by auto
  from forecast_card_of_entry [OF d(2)] obtain c n' where
    "forecast_card_of p (forecast_entry dt h l f) i n = (Inr c, n')" by blast
  with Cons d show ?case by simp
qed

lemma displayForecast_mock_returns:
  "\<exists>s'. displayForecast p (mockForecast p) s = Returned s'"
proof -
  have "\<exists>cs n'. forecast_cards p (take 4 (case mockForecast p of JArr xs \<Rightarrow> xs | _ \<Rightarrow> [])) 0
          (random_draws s) [] = (Inr cs, n')"
    by (rule forecast_cards_entries) (auto simp: mockForecast_def js_def)
  then show ?thesis
    by (auto simp: displayForecast_def Let_def)
qed

lemma floor_half: "\<lfloor>rat_of_int k + 1 / 2\<rfloor> = k"
  by (rule floor_unique) simp_all

lemma Math_round_int: "Math_round (Finite (rat_of_int k)) = Finite (rat_of_int k)"
  by (simp add: floor_half)

lemma Math_round_22: "Math_round (Finite 22) = Finite 22"
  using Math_round_int [of 22] by simp

lemma mock_display:
  "weatherDisplay s \<noteq> None \<Longrightarrow>
   map_option (map_option (\<lambda>c. (wc_temp c, wc_source c)))
     (weatherDisplay (updateWeatherDisplay p mockWeatherData s)) = Some (Some (Finite 22, js ''Mock''))"
  by (auto simp: updateWeatherDisplay_def Let_def mockWeatherData_def js_def Math_round_22
        simp del: Math_round.simps split: option.splits)

lemma updateWeatherDisplay_cong:
  "weatherDisplay s = weatherDisplay t \<Longrightarrow> userPreferences s = userPreferences t \<Longrightarrow>
   weatherDisplay (updateWeatherDisplay p w s) = weatherDisplay (updateWeatherDisplay p w t)"
  by (simp add: updateWeatherDisplay_def Let_def split: option.splits)

text \<open>The fallback returns, with the mock record stored and shown.\<close>

lemma loadMockWeatherData_state:
  obtains s' where "loadMockWeatherData p s = Returned s'" and "weatherData s' = Some mockWeatherData"
    and "weatherDisplay s' = weatherDisplay (updateWeatherDisplay p mockWeatherData s)"
proof -
  let ?s2 = "(showNotification ([0x26A0, 0xFE0F] @ js '' Using mock weather data (API unavailable)'')
                (js ''info'') s)\<lparr>weatherData := Some mockWeatherData\<rparr>"
  let ?s3 = "updateWeatherDisplay p mockWeatherData ?s2"
  obtain s' where s': "displayForecast p (mockForecast p) ?s3 = Returned s'"
    using displayForecast_mock_returns by blast
  have eq: "loadMockWeatherData p s = Returned s'"
    using s' by (simp add: loadMockWeatherData_def Let_def)
  have "weatherData s' = weatherData ?s3"
    using displayForecast_fields(1) [of p "mockForecast p" ?s3] s' by simp
  then have a: "weatherData s' = Some mockWeatherData" by simp
  have "weatherDisplay s' = weatherDisplay ?s3"
    using displayForecast_fields(2) [of p "mockForecast p" ?s3] s' by simp
  also have "\<dots> = weatherDisplay (updateWeatherDisplay p mockWeatherData s)"
    by (rule updateWeatherDisplay_cong) simp_all
  finally have b: "weatherDisplay s' = weatherDisplay (updateWeatherDisplay p mockWeatherData s)" .
  show ?thesis by (rule that [OF eq a b])
qed

lemma fetchNEAWeather_failed:
  "fetch_failed r \<Longrightarrow> \<exists>e. fetchNEAWeather p r s = Thrown e s"
  by (auto simp: fetch_failed_def fetchNEAWeather_def split: fetched.splits body.splits if_splits)

lemma fetchNEAForecast_failed:
  "fetch_failed r \<Longrightarrow> \<exists>e. fetchNEAForecast p r s = Thrown e s"
  by (auto simp: fetch_failed_def fetchNEAForecast_def split: fetched.splits body.splits if_splits)

lemma weather_of_data_display:
  "(weatherDisplay (state_of (weather_of_data p data s)) = None) = (weatherDisplay s = None)"
  by (simp add: weather_of_data_def Let_def split: jsval.splits)

lemma location_of_data_display:
  "weatherDisplay (state_of (location_of_data p data s)) = weatherDisplay s"
  by (simp add: location_of_data_def Let_def)

lemma fetchNEAWeather_display:
  "(weatherDisplay (state_of (fetchNEAWeather p r s)) = None) = (weatherDisplay s = None)"
proof (cases "location_of_data p (case r of Response ok (Json data) \<Rightarrow> data) s")
  case (Returned s1)
  then show ?thesis
    using location_of_data_display [of p "case r of Response ok (Json data) \<Rightarrow> data" s]
      weather_of_data_display [of p "case r of Response ok (Json data) \<Rightarrow> data" s1]
    by (auto simp: fetchNEAWeather_def split: fetched.splits body.splits)
next
  case (Thrown e s1)
  then show ?thesis
    using location_of_data_display [of p "case r of Response ok (Json data) \<Rightarrow> data" s]
    by (auto simp: fetchNEAWeather_def split: fetched.splits body.splits)
qed

text \<open>Whichever of the two requests fails, \<open>loadWeatherData\<close> ends in the fallback.\<close>

lemma loadWeatherData_cases:
  assumes "fetch_failed w \<or> fetch_failed f"
  obtains s1 where "loadWeatherData p w f s = loadMockWeatherData p s1"
    and "weatherDisplay s1 = None \<longleftrightarrow> weatherDisplay s = None"
proof -
  let ?s0 = "showNotification
     ([0xD83C, 0xDF24, 0xFE0F] @ js '' Loading real-time weather data from NEA...'') (js ''info'') s"
  show ?thesis
  proof (cases "fetchNEAWeather p w ?s0")
    case (Thrown e s1)
    have a: "(weatherDisplay s1 = None) = (weatherDisplay s = None)"
      using fetchNEAWeather_display [of p w ?s0] Thrown by simp
    have b: "loadWeatherData p w f s = loadMockWeatherData p s1"
      using Thrown by (simp add: loadWeatherData_def Let_def)
    show ?thesis by (rule that [OF b a])
  next
    case (Returned s1)
    then have "\<not> fetch_failed w" using fetchNEAWeather_failed [of w p ?s0] by auto
    with assms have "fetch_failed f" by simp
    then obtain e where e: "fetchNEAForecast p f s1 = Thrown e s1"
      using fetchNEAForecast_failed by blast
    have a: "(weatherDisplay s1 = None) = (weatherDisplay s = None)"
      using fetchNEAWeather_display [of p w ?s0] Returned by simp
    have b: "loadWeatherData p w f s = loadMockWeatherData p s1"
      using Returned e by (simp add: loadWeatherData_def Let_def)
    show ?thesis by (rule that [OF b a])
  qed
qed

text \<open>
  C1. When the request for the current conditions or the one for the forecast fails (it is
  rejected, answered with a status that is not a success, or its body does not parse),
  \<open>loadWeatherData\<close> returns after the fallback: the stored weather record has the
  temperature 22 and the source \<^verbatim>\<open>Mock\<close>, and so has the card shown when the page has the
  weather element.
\<close>

theorem loadWeatherData_fallback:
  assumes "fetch_failed weather_response \<or> fetch_failed forecast_response"
  shows "\<exists>s'. loadWeatherData p weather_response forecast_response s = Returned s' \<and>
           map_option (\<lambda>w. (temperature w, source w)) (weatherData s') = Some (Finite 22, js ''Mock'') \<and>
           (weatherDisplay s \<noteq> None \<longrightarrow>
              map_option (map_option (\<lambda>c. (wc_temp c, wc_source c))) (weatherDisplay s') =
                Some (Some (Finite 22, js ''Mock'')))"
proof -
  obtain s1 where s1: "loadWeatherData p weather_response forecast_response s = loadMockWeatherData p s1"
      and d1: "(weatherDisplay s1 = None) = (weatherDisplay s = None)"
    by (rule loadWeatherData_cases [OF assms])
  obtain s' where r: "loadMockWeatherData p s1 = Returned s'"
      and w: "weatherData s' = Some mockWeatherData"
      and d: "weatherDisplay s' = weatherDisplay (updateWeatherDisplay p mockWeatherData s1)"
    by (rule loadMockWeatherData_state [of p s1])
  have a: "map_option (\<lambda>w. (temperature w, source w)) (weatherData s') = Some (Finite 22, js ''Mock'')"
    unfolding w by (simp add: mockWeatherData_def)
  have b: "map_option (map_option (\<lambda>c. (wc_temp c, wc_source c))) (weatherDisplay s') =
                Some (Some (Finite 22, js ''Mock''))" if "weatherDisplay s \<noteq> None"
  proof -
    from that d1 have "weatherDisplay s1 \<noteq> None" by simp
    then show ?thesis unfolding d by (rule mock_display)
  qed
  have eq: "loadWeatherData p weather_response forecast_response s = Returned s'"
    unfolding s1 by (fact r)
  show ?thesis
  proof (intro exI conjI impI)
    show "loadWeatherData p weather_response forecast_response s = Returned s'" by (fact eq)
    show "map_option (\<lambda>w. (temperature w, source w)) (weatherData s') = Some (Finite 22, js ''Mock'')"
      by (fact a)
    show "map_option (map_option (\<lambda>c. (wc_temp c, wc_source c))) (weatherDisplay s') =
                Some (Some (Finite 22, js ''Mock''))" if "weatherDisplay s \<noteq> None"
      using that by (rule b)
  qed
qed

theorem loadWeatherData_fallback_witness:
  "fetch_failed (Response False (Json JNull)) \<and>
   (\<exists>s'. loadWeatherData singapore (Response False (Json JNull)) (Response True (Json JNull)) page = Returned s' \<and>
      map_option (\<lambda>w. (temperature w, source w)) (weatherData s') = Some (Finite 22, js ''Mock'') \<and>
      map_option (map_option (\<lambda>c. (wc_temp c, wc_source c))) (weatherDisplay s') =
        Some (Some (Finite 22, js ''Mock'')))"
proof -
  have f: "fetch_failed (Response False (Json JNull))" by (simp add: fetch_failed_def)
  then have f': "fetch_failed (Response False (Json JNull)) \<or> fetch_failed (Response True (Json JNull))" ..
  have d: "weatherDisplay page \<noteq> None" by (simp add: page_def)
  show ?thesis
    using f d loadWeatherData_fallback [OF f', of singapore page] by simp
qed

section \<open>Loading the preferences\<close>

lemma JSON_parse_empty: "JSON_parse p [] = Inl SyntaxError"
  by (simp add: JSON_parse_def)

lemma JSON_parse_error: "JSON_parse p str = Inl e \<Longrightarrow> e = SyntaxError"
  by (auto simp: JSON_parse_def split: option.splits)

lemma replace_default:
  "k = js ''units'' \<or> k = js ''notifications'' \<or> k = js ''darkMode'' \<Longrightarrow>
   spread defaultPreferences (JObj [(k, v)]) =
     map (\<lambda>(k', v'). if k' = k then (k', v) else (k', v')) defaultPreferences"
  by (auto simp: spread_def defaultPreferences_def js_def)

text \<open>
  C2. From the preferences the script starts with: when nothing is stored,
  \<open>loadUserPreferences\<close> leaves exactly the defaults (units \<^verbatim>\<open>metric\<close>, notifications on,
  dark mode off); when the stored text is a JSON object with one of the three fields, the
  result is the defaults with the value of that one field replaced by the stored one.
\<close>

theorem loadUserPreferences_defaults_override:
  assumes "userPreferences s = defaultPreferences"
  shows "loadUserPreferences p None s = Returned s \<and>
         (JSON_parse p saved = Inr (JObj [(k, v)]) \<and>
          (k = js ''units'' \<or> k = js ''notifications'' \<or> k = js ''darkMode'') \<longrightarrow>
            loadUserPreferences p (Some saved) s =
              Returned (s\<lparr>userPreferences :=
                map (\<lambda>(k', v'). if k' = k then (k', v) else (k', v')) defaultPreferences\<rparr>))"
proof (intro conjI impI)
  show "loadUserPreferences p None s = Returned s"
    by (simp add: loadUserPreferences_def)
next
  assume a: "JSON_parse p saved = Inr (JObj [(k, v)]) \<and>
          (k = js ''units'' \<or> k = js ''notifications'' \<or> k = js ''darkMode'')"
  then have "saved \<noteq> []" using JSON_parse_empty [of p] by auto
  with a assms show "loadUserPreferences p (Some saved) s =
      Returned (s\<lparr>userPreferences :=
         map (\<lambda>(k', v'). if k' = k then (k', v) else (k', v')) defaultPreferences\<rparr>)"
    by (simp add: loadUserPreferences_def replace_default)
qed

lemma parse_darkMode:
  \<open>JSON_parse p (js ''{"darkMode":true}'') = Inr (JObj [(js ''darkMode'', JBool True)])\<close>
  by (simp add: JSON_parse_def js_def expect_value_def is_json_ws_def end_string_def is_digit_def)

theorem loadUserPreferences_defaults_override_witness:
  \<open>userPreferences page = defaultPreferences \<and>
   loadUserPreferences singapore None page = Returned page \<and>
   JSON_parse singapore (js ''{"darkMode":true}'') = Inr (JObj [(js ''darkMode'', JBool True)]) \<and>
   loadUserPreferences singapore (Some (js ''{"darkMode":true}'')) page =
     Returned (page\<lparr>userPreferences :=
       [(js ''units'', JStr (js ''metric'')), (js ''notifications'', JBool True),
        (js ''darkMode'', JBool True)]\<rparr>)\<close>
proof -
  have h: "userPreferences page = defaultPreferences" by (simp add: page_def)
  have m: "map (\<lambda>(k', v'). if k' = js ''darkMode'' then (k', JBool True) else (k', v')) defaultPreferences =
       [(js ''units'', JStr (js ''metric'')), (js ''notifications'', JBool True),
        (js ''darkMode'', JBool True)]"
    by (simp add: defaultPreferences_def js_def)
  show ?thesis
    using h parse_darkMode [of singapore]
      loadUserPreferences_defaults_override [OF h, of singapore \<open>js ''{"darkMode":true}''\<close> "js ''darkMode''" "JBool True"]
    unfolding m by simp
qed

text \<open>
  C3, as the code has it. \<open>loadUserPreferences\<close> tolerates absent storage: with no stored
  text, or an empty one, it returns and the state is as before. A stored text that is not
  JSON is not tolerated: \<open>JSON.parse\<close> throws a \<open>SyntaxError\<close>, nothing catches it, and the
  call ends by that throw with the preferences as they were.
\<close>

theorem loadUserPreferences_storage:
  "(saved = None \<or> saved = Some [] \<longrightarrow> loadUserPreferences p saved s = Returned s) \<and>
   (str \<noteq> [] \<and> JSON_parse p str = Inl e \<longrightarrow>
      loadUserPreferences p (Some str) s = Thrown SyntaxError s)"
  using JSON_parse_error [of p str e] by (auto simp: loadUserPreferences_def)

theorem loadUserPreferences_storage_witness:
  "loadUserPreferences singapore None page = Returned page \<and>
   loadUserPreferences singapore (Some []) page = Returned page \<and>
   js ''not json'' \<noteq> [] \<and> JSON_parse singapore (js ''not json'') = Inl SyntaxError \<and>
   loadUserPreferences singapore (Some (js ''not json'')) page = Thrown SyntaxError page"
proof -
  have a: "js ''not json'' \<noteq> []" by (simp add: js_def)
  have b: "JSON_parse singapore (js ''not json'') = Inl SyntaxError"
    by (simp add: JSON_parse_def js_def expect_value_def is_json_ws_def is_digit_def)
  show ?thesis
    using a b loadUserPreferences_storage [of None singapore page "js ''not json''" SyntaxError]
      loadUserPreferences_storage [of "Some []" singapore page "js ''not json''" SyntaxError]
    by simp
qed

text \<open>
  The claim C3 as it is written fails on the stored text \<^verbatim>\<open>{\<close>: the call throws.
\<close>

theorem loadUserPreferences_malformed_counterexample:
  "loadUserPreferences singapore (Some (js ''{'')) page = Thrown SyntaxError page"
  by (simp add: loadUserPreferences_def JSON_parse_def js_def expect_value_def is_json_ws_def)

section \<open>Formatting a date\<close>

text \<open>
  \<open>YearFromDay\<close> is the year ECMAScript asks for: the day lies between the first day of
  that year and the first day of the next.
\<close>

lemma div_bounds:
  fixes k x :: int
  assumes "0 < k"
  shows "k * (x div k) \<le> x" and "x \<le> k * (x div k) + k - 1"
  using assms pos_mod_bound [of k x] pos_mod_sign [of k x] mult_div_mod_eq [of k x] by linarith+

lemma DayFromYear_bounds:
  "146097 * (y - 1970) - 506 \<le> 400 * DayFromYear y"
  "400 * DayFromYear y \<le> 146097 * (y - 1970) + 589"
proof -
  define A where "A = (y - 1969) div 4"
  define B where "B = (y - 1901) div 100"
  define C where "C = (y - 1601) div 400"
  have a: "4 * A \<le> y - 1969" "y - 1969 \<le> 4 * A + 4 - 1"
    unfolding A_def by (rule div_bounds, simp)+
  have b: "100 * B \<le> y - 1901" "y - 1901 \<le> 100 * B + 100 - 1"
    unfolding B_def by (rule div_bounds, simp)+
  have c: "400 * C \<le> y - 1601" "y - 1601 \<le> 400 * C + 400 - 1"
    unfolding C_def by (rule div_bounds, simp)+
  have d: "DayFromYear y = 365 * (y - 1970) + A - B + C"
    by (simp add: DayFromYear_def A_def B_def C_def)
  show "146097 * (y - 1970) - 506 \<le> 400 * DayFromYear y"
    using a b c d by (simp add: algebra_simps)
  show "400 * DayFromYear y \<le> 146097 * (y - 1970) + 589"
    using a b c d by (simp add: algebra_simps)
qed

lemma YearFromDay_bracket:
  "DayFromYear (YearFromDay d) \<le> d \<and> d < DayFromYear (YearFromDay d + 1)"
proof -
  define q where "q = (d * 400) div 146097"
  have q: "146097 * q \<le> d * 400" "d * 400 \<le> 146097 * q + 146097 - 1"
    unfolding q_def by (rule div_bounds, simp)+
  have a: "DayFromYear (1970 + q - 1) \<le> d"
    using DayFromYear_bounds(2) [of "1970 + q - 1"] q by (simp add: algebra_simps)
  have b: "d < DayFromYear (1970 + q + 1 + 1)"
    using DayFromYear_bounds(1) [of "1970 + q + 1 + 1"] q by (simp add: algebra_simps)
  show ?thesis
    using a b unfolding YearFromDay_def Let_def q_def [symmetric] by auto
qed

lemmas date_defs = msPerDay_def Day_def TimeWithinDay_def DaysInYear_def DayFromYear_def YearFromDay_def
  InLeapYear_def DayWithinYear_def month_start_def MonthFromDay_def DateFromDay_def WeekDay_def
  MakeDay_def MakeDate_def DaysInMonth_def

lemma midnight: "MakeDate (MakeDay 2025 11 2) 0 = 1764633600000"
  by (simp add: date_defs)

lemma parse_2025_12_02:
  "Date_parse p (js ''2025-12-02'' @ js ''T00:00:00'') = Some (UTC p 1764633600000)"
  by (simp add: Date_parse_def js_def is_digit_def Let_def date_defs)

lemma fields_2025_12_02:
  "WeekDay 1764633600000 = 2" "MonthFromDay (Day 1764633600000) = 11" "DateFromDay (Day 1764633600000) = 2"
  by (simp_all add: date_defs Let_def)

text \<open>
  C8. \<open>formatDate\<close> of \<^verbatim>\<open>2025-12-02\<close> is \<^verbatim>\<open>Tue 2 Dec\<close>. The string is read as a midnight
  in local time and its fields are read back in local time; the hypothesis says that this
  midnight exists in the zone of the platform (no transition of the zone skips it).
\<close>

theorem formatDate_2025_12_02:
  assumes "LocalTime p (UTC p (MakeDate (MakeDay 2025 11 2) 0)) = MakeDate (MakeDay 2025 11 2) 0"
  shows "formatDate p (JStr (js ''2025-12-02'')) = JStr (js ''Tue 2 Dec'')"
proof -
  have l: "LocalTime p (UTC p 1764633600000) = 1764633600000"
    using assms unfolding midnight .
  have t: "truthy (JStr (js ''2025-12-02''))" by (simp add: js_def)
  have "formatDate p (JStr (js ''2025-12-02'')) =
      JStr (days ! nat (WeekDay 1764633600000) @ js '' '' @ digits (nat (DateFromDay (Day 1764633600000))) @
      js '' '' @ months ! nat (MonthFromDay (Day 1764633600000)))"
    using t by (simp add: formatDate_def parse_2025_12_02 getDay_def getDate_def getMonth_def l)
  also have "\<dots> = JStr (js ''Tue 2 Dec'')"
    by (simp add: fields_2025_12_02 days_def months_def js_def)
  finally show ?thesis .
qed

theorem formatDate_2025_12_02_witness:
  "LocalTime singapore (UTC singapore (MakeDate (MakeDay 2025 11 2) 0)) = MakeDate (MakeDay 2025 11 2) 0 \<and>
   formatDate singapore (JStr (js ''2025-12-02'')) = JStr (js ''Tue 2 Dec'')"
proof -
  have h: "LocalTime singapore (UTC singapore (MakeDate (MakeDay 2025 11 2) 0)) = MakeDate (MakeDay 2025 11 2) 0"
    by (simp add: LocalTime_def UTC_def singapore_def)
  show ?thesis using h formatDate_2025_12_02 [OF h] by simp
qed

section \<open>The dates of the fallback forecast\<close>

text \<open>
  In a zone whose offset is fixed, \<open>getDateString k\<close> is the calendar date, in UTC, of the
  day \<open>k\<close> days after the current UTC day: \<open>setDate\<close> moves the time value by whole days
  and \<open>toISOString\<close> writes it in UTC.
\<close>

lemma setDate_fixed_offset:
  assumes "tza_utc p = (\<lambda>t. c)" "tza_local p = (\<lambda>t. c)"
  shows "setDate p t (getDate p t + k) = t + k * msPerDay"
proof -
  let ?l = "t + c"
  let ?D = "Day ?l"
  have md: "MakeDay (YearFromDay ?D) (MonthFromDay ?D) (DateFromDay ?D + k) = ?D + k"
    by (simp add: MakeDay_def DateFromDay_def DayWithinYear_def InLeapYear_def)
  have "MakeDate (?D + k) (TimeWithinDay ?l) = ?l + k * msPerDay"
    by (simp add: MakeDate_def Day_def TimeWithinDay_def algebra_simps)
  then show ?thesis
    using assms md by (simp add: setDate_def getDate_def LocalTime_def UTC_def Let_def)
qed

lemma getDateString_fixed_offset:
  assumes "tza_utc p = (\<lambda>t. c)" "tza_local p = (\<lambda>t. c)"
  shows "getDateString p k = iso_date (Day (now p) + k)"
proof -
  have "Day (now p + k * msPerDay) = Day (now p) + k"
    by (simp add: Day_def msPerDay_def)
  then show ?thesis
    using setDate_fixed_offset [OF assms, of "now p" k] by (simp add: getDateString_def Let_def)
qed

lemma singapore_zone: "tza_utc singapore = (\<lambda>t. 28800000)" "tza_local singapore = (\<lambda>t. 28800000)"
  by (simp_all add: singapore_def)

lemma iso_dates:
  "iso_date 20423 = js ''2025-12-01''" "iso_date 20424 = js ''2025-12-02''"
  "iso_date 20425 = js ''2025-12-03''" "iso_date 20426 = js ''2025-12-04''"
  by (simp_all add: iso_date_def date_defs Let_def pad_def js_def)

lemma singapore_day: "Day (now singapore) = 20423" "Day (LocalTime singapore (now singapore)) = 20424"
  by (simp_all add: singapore_def Day_def msPerDay_def LocalTime_def)

lemma singapore_mockForecast:
  "mockForecast singapore =
     JArr [forecast_entry (js ''2025-12-01'') 32 24 (js ''Sunny''),
           forecast_entry (js ''2025-12-02'') 30 23 (js ''Partly Cloudy''),
           forecast_entry (js ''2025-12-03'') 28 22 (js ''Thundery Showers''),
           forecast_entry (js ''2025-12-04'') 31 24 (js ''Sunny'')]"
  by (simp add: mockForecast_def getDateString_fixed_offset [OF singapore_zone] singapore_day iso_dates)

lemma singapore_formatDate:
  "formatDate singapore (JStr (js ''2025-12-01'')) = JStr (js ''Mon 1 Dec'')"
  "formatDate singapore (JStr (js ''2025-12-02'')) = JStr (js ''Tue 2 Dec'')"
  "formatDate singapore (JStr (js ''2025-12-03'')) = JStr (js ''Wed 3 Dec'')"
  "formatDate singapore (JStr (js ''2025-12-04'')) = JStr (js ''Thu 4 Dec'')"
  by (simp_all add: formatDate_def Date_parse_def js_def is_digit_def Let_def date_defs
      getDay_def getDate_def getMonth_def LocalTime_def UTC_def singapore_def days_def months_def)

lemma singapore_icons:
  "icon_of singapore (js ''Sunny'') = [0x2600, 0xFE0F]"
  "icon_of singapore (js ''Partly Cloudy'') = [0x2601, 0xFE0F]"
  "icon_of singapore (js ''Thundery Showers'') = [0xD83C, 0xDF27, 0xFE0F]"
  by (simp_all add: icon_of_def singapore_def ascii_lower_def js_def)

lemma singapore_random: "random singapore n = 0"
  by (simp add: singapore_def)

lemma Math_round_60: "Math_round (Finite 60) = Finite 60"
  using Math_round_int [of 60] by simp

lemma number_texts:
  "Number_toString p (Finite 22) = js ''22''" "Number_toString p (Finite 23) = js ''23''"
  "Number_toString p (Finite 24) = js ''24''" "Number_toString p (Finite 28) = js ''28''"
  "Number_toString p (Finite 30) = js ''30''" "Number_toString p (Finite 31) = js ''31''"
  "Number_toString p (Finite 32) = js ''32''" "Number_toString p (Finite 60) = js ''60''"
  by (simp_all add: Number_toString_def js_def)

lemma singapore_cards:
  "forecastGrid (state_of (loadMockWeatherData singapore page)) =
     Some (card_html \<lparr>fc_date = js ''Mon 1 Dec'', fc_icon = [0x2600, 0xFE0F], fc_temp = js ''32'',
                       fc_condition = js ''Sunny'', fc_minTemp = js ''24'', fc_humidity = js ''60''\<rparr> @
           card_html \<lparr>fc_date = js ''Tue 2 Dec'', fc_icon = [0x2601, 0xFE0F], fc_temp = js ''30'',
                       fc_condition = js ''Partly Cloudy'', fc_minTemp = js ''23'', fc_humidity = js ''60''\<rparr> @
           card_html \<lparr>fc_date = js ''Wed 3 Dec'', fc_icon = [0xD83C, 0xDF27, 0xFE0F], fc_temp = js ''28'',
                       fc_condition = js ''Thundery Showers'', fc_minTemp = js ''22'', fc_humidity = js ''60''\<rparr> @
           card_html \<lparr>fc_date = js ''Thu 4 Dec'', fc_icon = [0x2600, 0xFE0F], fc_temp = js ''31'',
                       fc_condition = js ''Sunny'', fc_minTemp = js ''24'', fc_humidity = js ''60''\<rparr>)"
proof -
  have ne: "js ''2025-12-01'' \<noteq> []" "js ''2025-12-02'' \<noteq> []" "js ''2025-12-03'' \<noteq> []"
    "js ''2025-12-04'' \<noteq> []" "js ''Sunny'' \<noteq> []" "js ''Partly Cloudy'' \<noteq> []"
    "js ''Thundery Showers'' \<noteq> []"
    by (simp_all add: js_def)
  have g: "forecastGrid page = Some []" "random_draws page = 0" by (simp_all add: page_def)
  show ?thesis
    by (simp add: loadMockWeatherData_def displayForecast_def singapore_mockForecast Let_def g ne
        forecast_card_of_entry_eq singapore_formatDate singapore_icons singapore_random Math_round_60
        number_texts del: Math_round.simps)
qed

text \<open>
  C9. The fallback forecast has four entries with the canned conditions and temperatures,
  and none of the three is drawn from \<open>Math.random\<close>. Their dates are not today and the
  three days after it: in Singapore at 07:00 on Tuesday 2 December 2025 the local date is
  \<^verbatim>\<open>2025-12-02\<close>, the four entries are dated \<^verbatim>\<open>2025-12-01\<close> to \<^verbatim>\<open>2025-12-04\<close>, and the
  grid holds the markup of four cards, the first headed \<^verbatim>\<open>Mon 1 Dec\<close>.
\<close>

theorem mockForecast_singapore:
  "mockForecast singapore =
     JArr [forecast_entry (js ''2025-12-01'') 32 24 (js ''Sunny''),
           forecast_entry (js ''2025-12-02'') 30 23 (js ''Partly Cloudy''),
           forecast_entry (js ''2025-12-03'') 28 22 (js ''Thundery Showers''),
           forecast_entry (js ''2025-12-04'') 31 24 (js ''Sunny'')] \<and>
   forecastGrid (state_of (loadMockWeatherData singapore page)) =
     Some (card_html \<lparr>fc_date = js ''Mon 1 Dec'', fc_icon = [0x2600, 0xFE0F], fc_temp = js ''32'',
                       fc_condition = js ''Sunny'', fc_minTemp = js ''24'', fc_humidity = js ''60''\<rparr> @
           card_html \<lparr>fc_date = js ''Tue 2 Dec'', fc_icon = [0x2601, 0xFE0F], fc_temp = js ''30'',
                       fc_condition = js ''Partly Cloudy'', fc_minTemp = js ''23'', fc_humidity = js ''60''\<rparr> @
           card_html \<lparr>fc_date = js ''Wed 3 Dec'', fc_icon = [0xD83C, 0xDF27, 0xFE0F], fc_temp = js ''28'',
                       fc_condition = js ''Thundery Showers'', fc_minTemp = js ''22'', fc_humidity = js ''60''\<rparr> @
           card_html \<lparr>fc_date = js ''Thu 4 Dec'', fc_icon = [0x2600, 0xFE0F], fc_temp = js ''31'',
                       fc_condition = js ''Sunny'', fc_minTemp = js ''24'', fc_humidity = js ''60''\<rparr>) \<and>
   iso_date (Day (LocalTime singapore (now singapore))) = js ''2025-12-02''"
  by (simp add: singapore_mockForecast singapore_cards singapore_day iso_dates)

section \<open>The forecast cards\<close>

























end
